theory Spec2Isabelle
  imports Main
begin

section \<open>JavaScript values, props and DOM bindings\<close>

text \<open>
  The composables are dynamically typed where it matters for the properties below:
  a prop may be missing, \<open>??\<close> tests for null and undefined, a condition tests
  truthiness, and \<open>===\<close> is strict equality. The values that reach those tests are
  modelled by one datatype. An object or array is kept as a reference (\<open>JObj r\<close>), a
  closure by its name (\<open>JFun n\<close>); numbers are integers plus \<open>NaN\<close>.
\<close>

datatype jsval =
    JUndefined
  | JNull
  | JBool bool
  | JNum int
  | JNaN
  | JStr string
  | JObj nat
  | JFun string

text \<open>ToBoolean of the language: what \<open>if (v)\<close>, \<open>v ? a : b\<close>, \<open>!v\<close> and \<open>||\<close> test.\<close>

fun truthy :: "jsval \<Rightarrow> bool" where
  "truthy JUndefined = False"
| "truthy JNull = False"
| "truthy (JBool b) = b"
| "truthy (JNum n) = (n \<noteq> 0)"
| "truthy JNaN = False"
| "truthy (JStr s) = (s \<noteq> [])"
| "truthy (JObj r) = True"
| "truthy (JFun n) = True"

text \<open>\<open>a ?? b\<close>: \<open>b\<close> when \<open>a\<close> is null or undefined.\<close>

fun nullish :: "jsval \<Rightarrow> bool" where
  "nullish JUndefined = True"
| "nullish JNull = True"
| "nullish v = False"

definition nullish_or :: "jsval \<Rightarrow> jsval \<Rightarrow> jsval" where
  "nullish_or a b = (if nullish a then b else a)"

text \<open>\<open>a || b\<close> on values.\<close>

definition js_or :: "jsval \<Rightarrow> jsval \<Rightarrow> jsval" where
  "js_or a b = (if truthy a then a else b)"

text \<open>\<open>a === b\<close>: equal values of the same type; \<open>NaN\<close> differs from itself;
  objects are equal when they are the same reference.\<close>

definition strict_eq :: "jsval \<Rightarrow> jsval \<Rightarrow> bool" where
  "strict_eq a b = (a = b \<and> a \<noteq> JNaN)"

text \<open>
  A prop after \<open>normalizeProps\<close> is a \<open>MaybeRefOrGetter\<close>: a plain value (a missing
  prop is the plain value undefined), or a ref or getter holding a value. \<open>toValue\<close> of
  Vue unwraps it. As an operand of \<open>||\<close> a ref or getter is an object, hence truthy.
\<close>

datatype maybe_ref = Raw jsval | Getter jsval

fun toValue :: "maybe_ref \<Rightarrow> jsval" where
  "toValue (Raw v) = v"
| "toValue (Getter v) = v"

fun prop_truthy :: "maybe_ref \<Rightarrow> bool" where
  "prop_truthy (Raw v) = truthy v"
| "prop_truthy (Getter v) = True"

text \<open>A DOM bindings object: keys to values. Spreading \<open>{...a, ...b}\<close> is \<open>a ++ b\<close>,
  where the later key wins.\<close>

type_synonym jsobj = "string \<rightharpoonup> jsval"

text \<open>\<open>AriaLabelableProps\<close> of the types file: two optional keys.\<close>

record AriaLabelableProps =
  aria_label :: "string option"
  aria_labelledby :: "string option"

definition labelable_obj :: "AriaLabelableProps \<Rightarrow> jsobj" where
  "labelable_obj l =
     (case aria_label l of None \<Rightarrow> Map.empty | Some s \<Rightarrow> [''aria-label'' \<mapsto> JStr s])
     ++ (case aria_labelledby l of None \<Rightarrow> Map.empty | Some s \<Rightarrow> [''aria-labelledby'' \<mapsto> JStr s])"

text \<open>Array helpers of the language: \<open>findIndex\<close> answers \<open>-1\<close> when no element
  passes, and \<open>arr[i]\<close> is undefined (here \<open>None\<close>) out of range.\<close>

fun findIndex :: "('a \<Rightarrow> bool) \<Rightarrow> 'a list \<Rightarrow> int" where
  "findIndex P [] = -1"
| "findIndex P (x # xs) =
     (if P x then 0 else (let i = findIndex P xs in if i < 0 then -1 else i + 1))"

definition at_idx :: "'a list \<Rightarrow> int \<Rightarrow> 'a option" where
  "at_idx xs i = (if 0 \<le> i \<and> i < int (length xs) then Some (xs ! nat i) else None)"

section \<open>useRadioGroup\<close>

text \<open>
  \<open>RadioItemContext\<close>: what a registered radio answers when the group asks it. The
  third method, \<open>setChecked\<close>, is the effect of a key press: the handlers below return
  the position in \<open>radios\<close> of the radio whose \<open>setChecked\<close> they call, or \<open>None\<close> when
  they call none.
\<close>

record RadioItemContext =
  isChecked :: bool
  isDisabled :: bool

text \<open>
  Modelled from the spec: \<open>getNextCycleArrIdx\<close> of utils/common, which is not among the
  sources. The roving selection cycles: after the last candidate comes the first and,
  going backwards, before the first comes the last. So an index past the end becomes 0,
  an index before the start becomes the last index, and any other index stays.
\<close>

definition getNextCycleArrIdx :: "int \<Rightarrow> 'a list \<Rightarrow> int" where
  "getNextCycleArrIdx idx arr =
     (if idx \<ge> int (length arr) then 0
      else if idx < 0 then int (length arr) - 1
      else idx)"

definition getOrientationArrows :: "jsval \<Rightarrow> string list \<times> string list" where
  "getOrientationArrows dir =
     (if strict_eq dir (JStr ''rtl'')
      then ([''ArrowUp'', ''ArrowRight''], [''ArrowDown'', ''ArrowLeft''])
      else ([''ArrowUp'', ''ArrowLeft''], [''ArrowDown'', ''ArrowRight'']))"

text \<open>The radios that are not disabled, each with its position in \<open>radios\<close>.\<close>

definition availableCandidates :: "RadioItemContext list \<Rightarrow> (nat \<times> RadioItemContext) list" where
  "availableCandidates radios = filter (\<lambda>(i, radio). \<not> isDisabled radio) (enumerate 0 radios)"

definition handleArrowNext :: "RadioItemContext list \<Rightarrow> nat option" where
  "handleArrowNext radios =
     (let currentIdx = findIndex isChecked radios in
      if currentIdx < 0 then map_option (\<lambda>_. 0) (at_idx radios 0)
      else
        let cands = availableCandidates radios;
            nextCandidate = at_idx cands (getNextCycleArrIdx (currentIdx + 1) cands)
        in map_option fst nextCandidate)"

definition handleArrowPrevious :: "RadioItemContext list \<Rightarrow> nat option" where
  "handleArrowPrevious radios =
     (let currentIdx = findIndex isChecked radios in
      if currentIdx = -1 then map_option (\<lambda>_. 0) (at_idx radios 0)
      else
        let cands = availableCandidates radios;
            prevCandidate = at_idx cands (getNextCycleArrIdx (currentIdx - 1) cands)
        in map_option fst prevCandidate)"

text \<open>
  The state of one \<open>useRadioGroup\<close>: the registered radios, the group's id, the props
  read below, the error message of \<open>useInputValidity\<close> (a string, or undefined), and the
  label bindings of \<open>useLabel\<close>.
\<close>

record RadioGroup =
  radios :: "RadioItemContext list"
  radio_groupId :: string
  radio_dir :: maybe_ref
  radio_description :: maybe_ref
  errorMessage :: jsval
  radio_labelledByProps :: AriaLabelableProps

text \<open>\<open>radioGroupProps.onKeydown\<close>: whether the event's default is prevented, and the
  radio that is checked.\<close>

definition onKeydown :: "RadioGroup \<Rightarrow> string \<Rightarrow> bool \<times> nat option" where
  "onKeydown g key =
     (let (prev, next) = getOrientationArrows (toValue (radio_dir g)) in
      if key \<in> set next then (True, handleArrowNext (radios g))
      else if key \<in> set prev then (True, handleArrowPrevious (radios g))
      else (False, None))"

text \<open>
  \<open>createDescribedByProps\<close> of utils/common is not among the sources. \<open>radioGroupProps\<close>
  takes its \<open>describedBy\<close> as a parameter: a function of what the source hands to
  \<open>createDescribedByProps\<close>, namely the input id, the error message and the description.
\<close>

definition radioGroupProps ::
  "(string \<Rightarrow> jsval \<Rightarrow> maybe_ref \<Rightarrow> jsval) \<Rightarrow> RadioGroup \<Rightarrow> jsobj" where
  "radioGroupProps describedBy g =
     labelable_obj (radio_labelledByProps g)
     ++ [''dir'' \<mapsto> nullish_or (toValue (radio_dir g)) (JStr ''ltr''),
         ''role'' \<mapsto> JStr ''radiogroup'',
         ''aria-describedby'' \<mapsto> describedBy (radio_groupId g) (errorMessage g) (radio_description g),
         ''aria-invalid'' \<mapsto> (if truthy (errorMessage g) then JBool True else JUndefined),
         ''onKeydown'' \<mapsto> JFun ''onKeydown'']"

text \<open>
  What the roving selection is meant to do, in the words of the specification: from the
  radio that is checked (position \<open>i\<close>), the next radio that is not disabled, going
  forwards and cycling past the last radio to the first; backwards for the previous one.
\<close>

definition spec_next_radio :: "RadioItemContext list \<Rightarrow> nat \<Rightarrow> nat option" where
  "spec_next_radio rs i =
     find (\<lambda>j. \<not> isDisabled (rs ! j)) ([Suc i ..< length rs] @ [0 ..< Suc i])"

definition spec_previous_radio :: "RadioItemContext list \<Rightarrow> nat \<Rightarrow> nat option" where
  "spec_previous_radio rs i =
     find (\<lambda>j. \<not> isDisabled (rs ! j)) (rev [0 ..< i] @ rev [i ..< length rs])"

text \<open>A group of four radios: the first is disabled, the second is checked.\<close>

definition radios_first_disabled :: "RadioItemContext list" where
  "radios_first_disabled =
     [\<lparr>isChecked = False, isDisabled = True\<rparr>,
      \<lparr>isChecked = True, isDisabled = False\<rparr>,
      \<lparr>isChecked = False, isDisabled = False\<rparr>,
      \<lparr>isChecked = False, isDisabled = False\<rparr>]"

text \<open>The same group with the third radio checked.\<close>

definition radios_third_checked :: "RadioItemContext list" where
  "radios_third_checked =
     [\<lparr>isChecked = False, isDisabled = True\<rparr>,
      \<lparr>isChecked = False, isDisabled = False\<rparr>,
      \<lparr>isChecked = True, isDisabled = False\<rparr>,
      \<lparr>isChecked = False, isDisabled = False\<rparr>]"

section \<open>useCheckboxGroup\<close>

text \<open>
  Modelled from the spec: \<open>isEqual\<close> of utils/common, which is not among the sources, is
  deep equality. Values are HOL terms, which carry their whole structure, so two values
  are deep-equal exactly when the terms are equal.
\<close>

definition isEqual :: "'a \<Rightarrow> 'a \<Rightarrow> bool" where
  "isEqual a b = (a = b)"

text \<open>
  Modelled from the spec: \<open>toggleValueSelection\<close> of utils/common, which is not among the
  sources. Without \<open>force\<close> it "adds v to the group's value array when no element
  deep-equal to v is present, and removes it when one is present", so that toggling
  twice restores membership: the value is pushed at the end, and removing it leaves no
  element deep-equal to it. The specification describes no forced call on a group; here
  \<open>force\<close> decides, in place of the search, whether the value is to be present.
\<close>

definition toggleValueSelection :: "'a list \<Rightarrow> 'a \<Rightarrow> bool option \<Rightarrow> 'a list" where
  "toggleValueSelection current v force =
     (let found = list_ex (\<lambda>x. isEqual x v) current;
          shouldAdd = (case force of Some f \<Rightarrow> f | None \<Rightarrow> \<not> found)
      in if \<not> shouldAdd then filter (\<lambda>x. \<not> isEqual x v) current
         else if \<not> found then current @ [v]
         else current)"

datatype CheckboxGroupState = Checked | Unchecked | Mixed

text \<open>\<open>CheckboxRegistration\<close>: a checkbox as the group sees it; \<open>reg_isInput\<close> is
  \<open>isInputElement(getElem())\<close>.\<close>

record CheckboxRegistration =
  reg_id :: string
  reg_isInput :: bool
  reg_isDisabled :: bool
  reg_isChecked :: bool

text \<open>
  The state of one \<open>useCheckboxGroup\<close>: the field's value (an array, or undefined), the
  registered checkboxes, the props the context is computed from, and how often the
  validity was recomputed by \<open>updateValidity\<close>.
\<close>

record 'a CheckboxGroup =
  fieldValue :: "'a list option"
  checkboxes :: "CheckboxRegistration list"
  groupId :: string
  group_name :: maybe_ref
  group_disabled :: maybe_ref
  group_readonly :: maybe_ref
  group_required :: maybe_ref
  validityUpdates :: nat

text \<open>\<open>fieldValue.value ?? []\<close>\<close>

definition valueOrEmpty :: "'a CheckboxGroup \<Rightarrow> 'a list" where
  "valueOrEmpty g = (case fieldValue g of None \<Rightarrow> [] | Some xs \<Rightarrow> xs)"

definition useCheckboxRegistration :: "CheckboxRegistration \<Rightarrow> 'a CheckboxGroup \<Rightarrow> 'a CheckboxGroup" where
  "useCheckboxRegistration checkbox g = g\<lparr>checkboxes := checkboxes g @ [checkbox]\<rparr>"

text \<open>\<open>setValue\<close> of the form field assigns the field's value.\<close>

definition toggleValue :: "'a \<Rightarrow> bool option \<Rightarrow> 'a CheckboxGroup \<Rightarrow> 'a CheckboxGroup" where
  "toggleValue v force g =
     (let nextValue = toggleValueSelection (valueOrEmpty g) v force;
          g' = g\<lparr>fieldValue := Some nextValue\<rparr>
      in if list_ex (\<lambda>c. \<not> reg_isInput c) (checkboxes g')
         then g'\<lparr>validityUpdates := Suc (validityUpdates g')\<rparr>
         else g')"

definition hasValue :: "'a CheckboxGroup \<Rightarrow> 'a \<Rightarrow> bool" where
  "hasValue g v = list_ex (\<lambda>x. isEqual x v) (valueOrEmpty g)"

definition groupState :: "'a CheckboxGroup \<Rightarrow> CheckboxGroupState" where
  "groupState g =
     (case fieldValue g of
        None \<Rightarrow> Unchecked
      | Some xs \<Rightarrow>
          if length xs = 0 then Unchecked
          else if length xs > 0 \<and> length xs < length (checkboxes g) then Mixed
          else Checked)"

text \<open>The context the group provides to its checkboxes.\<close>

definition context_name :: "'a CheckboxGroup \<Rightarrow> jsval" where
  "context_name g = nullish_or (toValue (group_name g)) (JStr (groupId g))"

definition context_disabled :: "'a CheckboxGroup \<Rightarrow> jsval" where
  "context_disabled g = nullish_or (toValue (group_disabled g)) (JBool False)"

definition context_readonly :: "'a CheckboxGroup \<Rightarrow> jsval" where
  "context_readonly g = nullish_or (toValue (group_readonly g)) (JBool False)"

definition context_required :: "'a CheckboxGroup \<Rightarrow> jsval" where
  "context_required g = nullish_or (toValue (group_required g)) (JBool False)"

section \<open>useCheckbox\<close>

record CheckboxProps =
  name :: maybe_ref
  label :: maybe_ref
  modelValue :: maybe_ref
  disabled :: maybe_ref
  trueValue :: maybe_ref
  falseValue :: maybe_ref
  indeterminate :: maybe_ref

text \<open>
  The state of one \<open>useCheckbox\<close>: its props, its id, the group it was injected (if
  any), the value of its own field (the ref that \<open>useFieldValue\<close> gives a checkbox
  without a group), the label bindings of \<open>useLabel\<close>, and the element refs.
\<close>

record Checkbox =
  props :: CheckboxProps
  inputId :: string
  group :: "jsval CheckboxGroup option"
  ownFieldValue :: jsval
  labelledByProps :: AriaLabelableProps
  inputRef :: jsval
  elementRef :: "jsval option"

definition getTrueValue :: "Checkbox \<Rightarrow> jsval" where
  "getTrueValue c = nullish_or (toValue (trueValue (props c))) (JBool True)"

definition getFalseValue :: "Checkbox \<Rightarrow> jsval" where
  "getFalseValue c = nullish_or (toValue (falseValue (props c))) (JBool False)"

text \<open>
  \<open>fieldValue\<close> is the checkbox's own ref, or for a grouped checkbox a computed ref:
  reading it gives the group's array, and assigning to it, whatever the value assigned,
  toggles the checkbox's true value in the group.
\<close>

definition fieldValue_get :: "Checkbox \<Rightarrow> jsval + jsval list option" where
  "fieldValue_get c =
     (case group c of
        Some g \<Rightarrow> Inr (fieldValue g)
      | None \<Rightarrow> Inl (ownFieldValue c))"

definition fieldValue_set :: "jsval \<Rightarrow> Checkbox \<Rightarrow> Checkbox" where
  "fieldValue_set v c =
     (case group c of
        Some g \<Rightarrow> c\<lparr>group := Some (toggleValue (getTrueValue c) None g)\<rparr>
      | None \<Rightarrow> c\<lparr>ownFieldValue := v\<rparr>)"

text \<open>The getter of the computed \<open>checked\<close>.\<close>

definition useCheckbox_checked :: "Checkbox \<Rightarrow> bool" where
  "useCheckbox_checked c =
     (case group c of
        Some g \<Rightarrow> hasValue g (getTrueValue c)
      | None \<Rightarrow> strict_eq (ownFieldValue c) (getTrueValue c))"

definition useCheckbox_setChecked :: "bool option \<Rightarrow> Checkbox \<Rightarrow> Checkbox" where
  "useCheckbox_setChecked force c =
     (if truthy (toValue (indeterminate (props c))) then c
      else case group c of
             Some g \<Rightarrow> c\<lparr>group := Some (toggleValue (getTrueValue c) force g)\<rparr>
           | None \<Rightarrow> c)"

definition useCheckbox_toggleValue :: "bool option \<Rightarrow> Checkbox \<Rightarrow> Checkbox" where
  "useCheckbox_toggleValue force c =
     (if truthy (toValue (indeterminate (props c))) then c
      else
        let shouldTrue = (case force of Some f \<Rightarrow> f | None \<Rightarrow> \<not> useCheckbox_checked c)
        in fieldValue_set (if shouldTrue then getTrueValue c else getFalseValue c) c)"

text \<open>The handlers of \<open>createHandlers\<close>, as state transformers.\<close>

definition useCheckbox_onClick :: "Checkbox \<Rightarrow> Checkbox" where
  "useCheckbox_onClick c =
     (if truthy (toValue (disabled (props c))) \<or> truthy (toValue (indeterminate (props c)))
      then c
      else useCheckbox_toggleValue None c)"

definition useCheckbox_onKeydown :: "string \<Rightarrow> Checkbox \<Rightarrow> Checkbox" where
  "useCheckbox_onKeydown code c =
     (if truthy (toValue (disabled (props c))) then c
      else if code = ''Space'' then useCheckbox_toggleValue None c
      else c)"

definition createHandlers :: "bool \<Rightarrow> jsobj" where
  "createHandlers isInput =
     (let baseHandlers = [''onClick'' \<mapsto> JFun ''onClick'', ''onKeydown'' \<mapsto> JFun ''onKeydown'']
      in if isInput then baseHandlers ++ [''onInvalid'' \<mapsto> JFun ''onInvalid'']
         else baseHandlers)"

text \<open>\<open>toValue(props.disabled || group?.disabled) ?? false\<close>: the operand of \<open>||\<close> is the
  prop itself, a plain value or a ref or getter.\<close>

definition useCheckbox_isDisabled :: "Checkbox \<Rightarrow> jsval" where
  "useCheckbox_isDisabled c =
     nullish_or
       (toValue
          (if prop_truthy (disabled (props c)) then disabled (props c)
           else Raw (case group c of None \<Rightarrow> JUndefined | Some g \<Rightarrow> context_disabled g)))
       (JBool False)"

definition createBindings :: "bool \<Rightarrow> Checkbox \<Rightarrow> jsobj" where
  "createBindings isInput c =
     labelable_obj (labelledByProps c)
     ++ createHandlers isInput
     ++ [''id'' \<mapsto> JStr (inputId c)]
     ++ [(if isInput then ''checked'' else ''aria-checked'') \<mapsto> JBool (useCheckbox_checked c)]
     ++ [(if isInput then ''readonly'' else ''aria-readonly'') \<mapsto>
           js_or (case group c of None \<Rightarrow> JUndefined | Some g \<Rightarrow> context_readonly g) JUndefined]
     ++ [(if isInput then ''disabled'' else ''aria-disabled'') \<mapsto>
           js_or (useCheckbox_isDisabled c) JUndefined]
     ++ [(if isInput then ''required'' else ''aria-required'') \<mapsto>
           (case group c of None \<Rightarrow> JUndefined | Some g \<Rightarrow> context_required g)]"

text \<open>
  \<open>withRefCapture\<close> of utils/common is not among the sources: \<open>checkboxProps\<close> takes it
  as a parameter and hands it the bindings object and the two refs, as the source does.
\<close>

definition checkboxProps ::
  "(jsobj \<Rightarrow> jsval \<Rightarrow> jsval option \<Rightarrow> jsobj) \<Rightarrow> Checkbox \<Rightarrow> jsobj" where
  "checkboxProps withRefCapture c =
     withRefCapture
       ([''role'' \<mapsto> JStr ''checkbox'',
         ''tabindex'' \<mapsto> (if truthy (toValue (disabled (props c))) then JStr ''-1'' else JStr ''0'')]
        ++ createBindings False c)
       (inputRef c)
       (elementRef c)"

section \<open>useForm\<close>

text \<open>Form values, and the touched flags beside them, are plain nested key/value trees.\<close>

datatype 'a tree = Leaf 'a | Node "(string \<times> 'a tree) list"

text \<open>The leaves of a tree, in the order of its entries.\<close>

fun leaves :: "'a tree \<Rightarrow> 'a list"
  and leaves_of_entries :: "(string \<times> 'a tree) list \<Rightarrow> 'a list" where
  "leaves (Leaf a) = [a]"
| "leaves (Node es) = leaves_of_entries es"
| "leaves_of_entries [] = []"
| "leaves_of_entries ((k, t) # es) = leaves t @ leaves_of_entries es"

text \<open>
  Modelled from the spec: \<open>findLeaf\<close> of utils/path, which is not among the sources:
  the first leaf of the tree that passes the predicate, searching the entries in order
  and each subtree in depth; undefined (here \<open>None\<close>) when no leaf passes.
\<close>

fun findLeaf :: "('a \<Rightarrow> bool) \<Rightarrow> 'a tree \<Rightarrow> 'a option"
  and findLeaf_entries :: "('a \<Rightarrow> bool) \<Rightarrow> (string \<times> 'a tree) list \<Rightarrow> 'a option" where
  "findLeaf P (Leaf a) = (if P a then Some a else None)"
| "findLeaf P (Node es) = findLeaf_entries P es"
| "findLeaf_entries P [] = None"
| "findLeaf_entries P ((k, t) # es) =
     (case findLeaf P t of Some a \<Rightarrow> Some a | None \<Rightarrow> findLeaf_entries P es)"

text \<open>\<open>useFormSnapshots\<close> is not among the sources; \<open>useForm\<close> reads the \<open>originals\<close> ref
  of the snapshot it returns.\<close>

record FormSnapshot =
  originals :: "jsval tree"

text \<open>
  The state of one \<open>useForm\<close>: the reactive \<open>values\<close> (\<open>form_values\<close>) and \<open>touched\<close> trees, the errors
  record (path to messages), and the two snapshots.
\<close>

record FormState =
  form_values :: "jsval tree"
  touched :: "jsval tree"
  errors :: "(string \<times> string list) list"
  valuesSnapshot :: FormSnapshot
  touchedSnapshot :: FormSnapshot

text \<open>
  Modelled from the spec: \<open>hasErrors\<close> of the form context (\<open>createFormContext\<close>, which
  is not among the sources): the context holds errors when some path of its errors
  record has a message.
\<close>

definition hasErrors :: "FormState \<Rightarrow> bool" where
  "hasErrors f = list_ex (\<lambda>(path, messages). messages \<noteq> []) (errors f)"

definition isTouched :: "FormState \<Rightarrow> bool" where
  "isTouched f = (findLeaf (\<lambda>l. strict_eq l (JBool True)) (touched f) \<noteq> None)"

definition isDirty :: "FormState \<Rightarrow> bool" where
  "isDirty f = (\<not> isEqual (form_values f) (originals (valuesSnapshot f)))"

definition isValid :: "FormState \<Rightarrow> bool" where
  "isValid f = (\<not> hasErrors f)"

section \<open>Concrete groups, checkboxes and forms\<close>

text \<open>A radio group in the default direction over the four radios above, its first
  radio disabled and its second checked.\<close>

definition radio_group_example :: RadioGroup where
  "radio_group_example =
     \<lparr>radios = radios_first_disabled, radio_groupId = ''rg'',
      radio_dir = Raw JUndefined, radio_description = Raw JUndefined,
      errorMessage = JStr ''Pick one'',
      radio_labelledByProps = \<lparr>aria_label = None, aria_labelledby = Some ''rg-l''\<rparr>\<rparr>"

text \<open>A checkbox that was given no prop at all, outside any group and unchecked.\<close>

definition no_props :: CheckboxProps where
  "no_props =
     \<lparr>name = Raw JUndefined, label = Raw JUndefined, modelValue = Raw JUndefined,
      disabled = Raw JUndefined, trueValue = Raw JUndefined, falseValue = Raw JUndefined,
      indeterminate = Raw JUndefined\<rparr>"

definition plain_checkbox :: Checkbox where
  "plain_checkbox =
     \<lparr>props = no_props, inputId = ''c1'', group = None, ownFieldValue = JBool False,
      labelledByProps = \<lparr>aria_label = None, aria_labelledby = Some ''c1-l''\<rparr>,
      inputRef = JObj 0, elementRef = None\<rparr>"

text \<open>The same checkbox with \<open>indeterminate\<close>, and with \<open>disabled\<close>, set to true.\<close>

definition indeterminate_checkbox :: Checkbox where
  "indeterminate_checkbox =
     plain_checkbox\<lparr>props := no_props\<lparr>indeterminate := Getter (JBool True)\<rparr>\<rparr>"

definition disabled_checkbox :: Checkbox where
  "disabled_checkbox =
     plain_checkbox\<lparr>props := no_props\<lparr>disabled := Getter (JBool True)\<rparr>\<rparr>"

text \<open>A disabled group holding the value \<open>true\<close>, and the plain checkbox inside it.\<close>

definition disabled_group :: "jsval CheckboxGroup" where
  "disabled_group =
     \<lparr>fieldValue = Some [JBool True], checkboxes = [], groupId = ''g1'',
      group_name = Raw JUndefined, group_disabled = Getter (JBool True),
      group_readonly = Raw JUndefined, group_required = Raw JUndefined,
      validityUpdates = 0\<rparr>"

definition group_disabled_checkbox :: Checkbox where
  "group_disabled_checkbox = plain_checkbox\<lparr>group := Some disabled_group\<rparr>"

text \<open>An instance of the \<open>withRefCapture\<close> parameter: it stores the input ref under the
  key \<open>ref\<close> when no element ref was given, and leaves every other key as it is.\<close>

definition capture_ref :: "jsobj \<Rightarrow> jsval \<Rightarrow> jsval option \<Rightarrow> jsobj" where
  "capture_ref m r e = (if e = None then m(''ref'' \<mapsto> r) else m)"

text \<open>Two forms: one whose errors record has a path without messages, one with a message.\<close>

definition form_clean :: FormState where
  "form_clean =
     \<lparr>form_values = Node [(''email'', Leaf (JStr ''a@b.c''))],
      touched = Node [(''email'', Leaf (JBool False))],
      errors = [(''email'', [])],
      valuesSnapshot = \<lparr>originals = Node [(''email'', Leaf (JStr []))]\<rparr>,
      touchedSnapshot = \<lparr>originals = Node []\<rparr>\<rparr>"

definition form_with_error :: FormState where
  "form_with_error = form_clean\<lparr>errors := [(''email'', [''Required''])]\<rparr>"

section \<open>Roving selection of the radio group\<close>

lemma findIndex_range: "findIndex P xs < int (length xs) \<and> -1 \<le> findIndex P xs"
  by (induction xs) (auto simp: Let_def)

lemma findIndex_neg: "findIndex P xs < 0 \<longleftrightarrow> (\<forall>x \<in> set xs. \<not> P x)"
  by (induction xs) (use findIndex_range in \<open>auto simp: Let_def\<close>)

lemma availableCandidates_all_enabled:
  "\<forall>r \<in> set rs. \<not> isDisabled r \<Longrightarrow> availableCandidates rs = enumerate 0 rs"
  by (auto simp: availableCandidates_def filter_id_conv in_set_enumerate_eq)

lemma at_idx_enumerate:
  "j < length rs \<Longrightarrow> at_idx (enumerate 0 rs) (int j) = Some (j, rs ! j)"
  by (simp add: at_idx_def nth_enumerate_eq)

text \<open>
  When no radio is disabled the candidates are the radios themselves, and the handlers
  do what the specification says: from the checked radio \<open>i\<close> the check moves to
  \<open>i + 1\<close>, or to the first radio from the last one, and backwards to \<open>i - 1\<close>, or to the
  last radio from the first one.
\<close>

lemma handleArrowNext_all_enabled:
  assumes enabled: "\<forall>r \<in> set rs. \<not> isDisabled r" and cur: "findIndex isChecked rs = int i"
  shows "handleArrowNext rs = Some (if Suc i < length rs then Suc i else 0)"
proof -
  have "int i < int (length rs)" using findIndex_range [of isChecked rs] cur by simp
  then have i: "i < length rs" by simp
  let ?j = "if Suc i < length rs then Suc i else 0"
  have j: "?j < length rs" using i by auto
  have idx: "getNextCycleArrIdx (int i + 1) (enumerate 0 rs) = int ?j"
    using i by (simp add: getNextCycleArrIdx_def)
  have "handleArrowNext rs = map_option fst (at_idx (enumerate 0 rs) (int ?j))"
    unfolding handleArrowNext_def Let_def availableCandidates_all_enabled [OF enabled] cur idx
    by simp
  also have "\<dots> = Some ?j"
    unfolding at_idx_enumerate [OF j] by simp
  finally show ?thesis .
qed

lemma handleArrowPrevious_all_enabled:
  assumes enabled: "\<forall>r \<in> set rs. \<not> isDisabled r" and cur: "findIndex isChecked rs = int i"
  shows "handleArrowPrevious rs = Some (if 0 < i then i - 1 else length rs - 1)"
proof -
  have "int i < int (length rs)" using findIndex_range [of isChecked rs] cur by simp
  then have i: "i < length rs" by simp
  let ?j = "if 0 < i then i - 1 else length rs - 1"
  have j: "?j < length rs" using i by auto
  have idx: "getNextCycleArrIdx (int i - 1) (enumerate 0 rs) = int ?j"
    using i by (auto simp: getNextCycleArrIdx_def of_nat_diff)
  have "handleArrowPrevious rs = map_option fst (at_idx (enumerate 0 rs) (int ?j))"
    unfolding handleArrowPrevious_def Let_def availableCandidates_all_enabled [OF enabled] cur idx
    by simp
  also have "\<dots> = Some ?j"
    unfolding at_idx_enumerate [OF j] by simp
  finally show ?thesis .
qed

text \<open>When no radio is checked, either handler checks the first registered radio,
  disabled or not, and does nothing in a group without radios.\<close>

lemma handleArrow_none_checked:
  assumes "\<forall>r \<in> set rs. \<not> isChecked r"
  shows "handleArrowNext rs = (if rs = [] then None else Some 0)
     \<and> handleArrowPrevious rs = (if rs = [] then None else Some 0)"
proof -
  have neg: "findIndex isChecked rs < 0" using assms by (simp add: findIndex_neg)
  then have "findIndex isChecked rs = -1"
    using findIndex_range [of isChecked rs] by linarith
  then show ?thesis
    by (simp add: handleArrowNext_def handleArrowPrevious_def at_idx_def)
qed

text \<open>
  C1. A next-direction arrow key moves the check to the next radio that is not disabled
  after the checked one, a previous-direction key to the previous one, cycling. The
  handlers look the checked radio up in \<open>radios\<close> and use that position in the shorter
  array of the radios that are not disabled. With a disabled radio before the checked
  one the two positions differ: in the group of four whose first radio is disabled and
  whose second is checked, ArrowDown checks the fourth radio, where the next radio that
  is not disabled is the third; with the third radio checked, ArrowUp checks the third
  radio again, where the previous one is the second. (Positions count from 0.)
\<close>

theorem handleArrow_wrong_candidate:
  "onKeydown radio_group_example ''ArrowDown'' = (True, Some 3)
   \<and> spec_next_radio (radios radio_group_example) 1 = Some 2
   \<and> onKeydown (radio_group_example\<lparr>radios := radios_third_checked\<rparr>) ''ArrowUp'' = (True, Some 2)
   \<and> spec_previous_radio radios_third_checked 2 = Some 1"
  by code_simp

section \<open>Checkbox group: membership and state\<close>

lemma list_ex_isEqual: "list_ex (\<lambda>x. isEqual x v) xs \<longleftrightarrow> v \<in> set xs"
  by (auto simp: list_ex_iff isEqual_def)

lemma valueOrEmpty_toggleValue:
  "valueOrEmpty (toggleValue v force g) = toggleValueSelection (valueOrEmpty g) v force"
  by (simp add: valueOrEmpty_def toggleValue_def Let_def)

lemma toggleValueSelection_None:
  "toggleValueSelection xs v None = (if v \<in> set xs then removeAll v xs else xs @ [v])"
proof -
  have "filter (\<lambda>x. \<not> isEqual x v) xs = removeAll v xs"
    by (induction xs) (auto simp: isEqual_def)
  then show ?thesis
    by (simp add: toggleValueSelection_def Let_def list_ex_isEqual)
qed

lemma hasValue_set: "hasValue g v \<longleftrightarrow> v \<in> set (valueOrEmpty g)"
  by (simp add: hasValue_def list_ex_isEqual)

text \<open>
  C2. In a checkbox group, \<open>toggleValue(v)\<close> without \<open>force\<close> leaves an array as the
  field's value: the old array with \<open>v\<close> added at its end when no element deep-equal to
  \<open>v\<close> was present, and the old array without \<open>v\<close> when one was. So each call flips
  \<open>hasValue(v)\<close>, and two calls in a row leave it as it was.
\<close>

theorem toggleValue_membership:
  "valueOrEmpty (toggleValue v None g) =
     (if hasValue g v then removeAll v (valueOrEmpty g) else valueOrEmpty g @ [v])
   \<and> fieldValue (toggleValue v None g) \<noteq> None
   \<and> hasValue (toggleValue v None g) v = (\<not> hasValue g v)
   \<and> hasValue (toggleValue v None (toggleValue v None g)) v = hasValue g v"
proof -
  have step: "valueOrEmpty (toggleValue v None h) =
      (if hasValue h v then removeAll v (valueOrEmpty h) else valueOrEmpty h @ [v])"
    for h :: "'a CheckboxGroup"
    by (simp add: valueOrEmpty_toggleValue toggleValueSelection_None hasValue_set)
  have flip: "hasValue (toggleValue v None h) v = (\<not> hasValue h v)" for h :: "'a CheckboxGroup"
    by (simp add: hasValue_set [of "toggleValue v None h"] step)
  have some: "fieldValue (toggleValue v None g) \<noteq> None"
    by (simp add: toggleValue_def Let_def)
  show ?thesis
    using step [of g] some flip [of g] flip [of "toggleValue v None g"] by simp
qed

text \<open>
  C9. The state of a checkbox group is \<open>unchecked\<close> exactly when the value array is
  absent or empty, \<open>mixed\<close> exactly when its length is strictly between zero and the
  number of registered checkboxes, and \<open>checked\<close> in every other case, that is when the
  array is not empty and has at least as many elements as there are registered
  checkboxes.
\<close>

theorem groupState_trichotomy:
  "(groupState g = Unchecked \<longleftrightarrow> fieldValue g = None \<or> fieldValue g = Some [])
   \<and> (groupState g = Mixed \<longleftrightarrow>
        0 < length (valueOrEmpty g) \<and> length (valueOrEmpty g) < length (checkboxes g))
   \<and> (groupState g = Checked \<longleftrightarrow>
        0 < length (valueOrEmpty g) \<and> length (checkboxes g) \<le> length (valueOrEmpty g))"
  by (cases "fieldValue g") (auto simp: groupState_def valueOrEmpty_def)

section \<open>Checkbox: toggling, the indeterminate state and the ARIA bindings\<close>

text \<open>
  C3. For a checkbox outside any group that is not indeterminate (disabled or not),
  \<open>toggleValue()\<close> sets the field's value to the true value when the checkbox is
  unchecked and to the false value when it is checked, and \<open>toggleValue(force)\<close> sets it
  to the true value when \<open>force\<close> is true and to the false value when it is false;
  nothing else of the checkbox changes. The true value is the \<open>trueValue\<close> prop, or
  \<open>true\<close> when that is null or undefined; the false value is the \<open>falseValue\<close> prop, or
  \<open>false\<close>.
\<close>

theorem toggleValue_ungrouped:
  assumes "group c = None" and "\<not> truthy (toValue (indeterminate (props c)))"
  shows "useCheckbox_toggleValue None c =
       c\<lparr>ownFieldValue := (if useCheckbox_checked c then getFalseValue c else getTrueValue c)\<rparr>
     \<and> useCheckbox_toggleValue (Some force) c =
       c\<lparr>ownFieldValue := (if force then getTrueValue c else getFalseValue c)\<rparr>
     \<and> getTrueValue c = (if nullish (toValue (trueValue (props c))) then JBool True
                          else toValue (trueValue (props c)))
     \<and> getFalseValue c = (if nullish (toValue (falseValue (props c))) then JBool False
                           else toValue (falseValue (props c)))"
  using assms
  by (simp add: useCheckbox_toggleValue_def fieldValue_set_def getTrueValue_def getFalseValue_def
      nullish_or_def)

theorem toggleValue_ungrouped_witness:
  "group plain_checkbox = None \<and> \<not> truthy (toValue (indeterminate (props plain_checkbox)))
   \<and> \<not> useCheckbox_checked plain_checkbox
   \<and> ownFieldValue (useCheckbox_toggleValue None plain_checkbox) = JBool True
   \<and> ownFieldValue (useCheckbox_toggleValue None (useCheckbox_toggleValue None plain_checkbox))
       = JBool False
   \<and> ownFieldValue (useCheckbox_toggleValue (Some False) plain_checkbox) = JBool False"
  using toggleValue_ungrouped [of plain_checkbox False]
    toggleValue_ungrouped [of "useCheckbox_toggleValue None plain_checkbox" False]
  by (simp add: plain_checkbox_def no_props_def useCheckbox_checked_def strict_eq_def
      getTrueValue_def getFalseValue_def nullish_or_def)

text \<open>
  C10. For a checkbox whose \<open>indeterminate\<close> prop is true, \<open>setChecked\<close> and
  \<open>toggleValue\<close> return with the checkbox, and the group it may be in, unchanged,
  whatever \<open>force\<close> is; in particular the field's value is what it was.
\<close>

theorem indeterminate_freezes:
  assumes "truthy (toValue (indeterminate (props c)))"
  shows "useCheckbox_setChecked force c = c \<and> useCheckbox_toggleValue force c = c
     \<and> fieldValue_get (useCheckbox_setChecked force c) = fieldValue_get c
     \<and> fieldValue_get (useCheckbox_toggleValue force c) = fieldValue_get c"
  using assms by (simp add: useCheckbox_setChecked_def useCheckbox_toggleValue_def)

theorem indeterminate_freezes_witness:
  "truthy (toValue (indeterminate (props indeterminate_checkbox)))
   \<and> useCheckbox_setChecked (Some True) indeterminate_checkbox = indeterminate_checkbox
   \<and> useCheckbox_toggleValue None indeterminate_checkbox = indeterminate_checkbox
   \<and> fieldValue_get (useCheckbox_toggleValue (Some True) indeterminate_checkbox)
       = Inl (JBool False)"
  using indeterminate_freezes [of indeterminate_checkbox "Some True"]
    indeterminate_freezes [of indeterminate_checkbox None]
  by (simp add: indeterminate_checkbox_def plain_checkbox_def no_props_def fieldValue_get_def)

lemma labelable_obj_other:
  "k \<noteq> ''aria-label'' \<Longrightarrow> k \<noteq> ''aria-labelledby'' \<Longrightarrow> labelable_obj l k = None"
  by (simp add: labelable_obj_def map_add_def split: option.splits)

lemma createBindings_aria_checked:
  "createBindings False c ''aria-checked'' = Some (JBool (useCheckbox_checked c))"
  by (simp add: createBindings_def map_add_def)

lemma createBindings_aria_disabled:
  "createBindings False c ''aria-disabled'' = Some (js_or (useCheckbox_isDisabled c) JUndefined)"
  by (simp add: createBindings_def map_add_def)

lemma createBindings_role: "createBindings False c ''role'' = None"
  by (simp add: createBindings_def createHandlers_def map_add_def labelable_obj_other)

lemma createBindings_tabindex: "createBindings False c ''tabindex'' = None"
  by (simp add: createBindings_def createHandlers_def map_add_def labelable_obj_other)

lemma createBindings_input_disabled:
  "createBindings True c ''disabled'' = Some (js_or (useCheckbox_isDisabled c) JUndefined)"
  by (simp add: createBindings_def map_add_def)

text \<open>
  Whatever \<open>withRefCapture\<close> does to the key \<open>ref\<close>, as long as it leaves the other keys
  alone, the bindings of a custom checkbox element carry the role \<open>checkbox\<close>, the
  tabindex \<open>-1\<close> when the checkbox's own \<open>disabled\<close> prop is truthy and \<open>0\<close> otherwise,
  and \<open>aria-checked\<close> equal to the checked state. The group's \<open>disabled\<close> flag does not
  enter the tabindex.
\<close>

lemma checkboxProps_bindings:
  assumes "\<And>m r e k. k \<noteq> ''ref'' \<Longrightarrow> withRefCapture m r e k = m k"
  shows "checkboxProps withRefCapture c ''role'' = Some (JStr ''checkbox'')
     \<and> checkboxProps withRefCapture c ''tabindex'' =
         Some (JStr (if truthy (toValue (disabled (props c))) then ''-1'' else ''0''))
     \<and> checkboxProps withRefCapture c ''aria-checked'' = Some (JBool (useCheckbox_checked c))"
  by (simp add: checkboxProps_def assms map_add_def createBindings_aria_checked
      createBindings_role createBindings_tabindex)

lemma checkboxProps_bindings_example:
  "checkboxProps capture_ref disabled_checkbox ''role'' = Some (JStr ''checkbox'')
   \<and> checkboxProps capture_ref disabled_checkbox ''tabindex'' = Some (JStr ''-1'')
   \<and> checkboxProps capture_ref disabled_checkbox ''aria-checked'' = Some (JBool False)
   \<and> checkboxProps capture_ref plain_checkbox ''tabindex'' = Some (JStr ''0'')"
proof -
  have frame: "capture_ref m r e k = m k" if "k \<noteq> ''ref''" for m r e k
    using that by (simp add: capture_ref_def)
  show ?thesis
    using checkboxProps_bindings [of capture_ref disabled_checkbox, OF frame]
      checkboxProps_bindings [of capture_ref plain_checkbox, OF frame]
    by (simp add: disabled_checkbox_def plain_checkbox_def no_props_def useCheckbox_checked_def
        strict_eq_def getTrueValue_def nullish_or_def)
qed

text \<open>
  C8. The bindings of a custom checkbox element carry the role \<open>checkbox\<close>, the tabindex
  \<open>-1\<close> when the checkbox is disabled and \<open>0\<close> otherwise, and \<open>aria-checked\<close> equal to
  the checked state. The tabindex tests the checkbox's own \<open>disabled\<close> prop, where
  \<open>isDisabled()\<close> also counts the group's flag. For the checkbox without a \<open>disabled\<close>
  prop inside a disabled group, \<open>isDisabled()\<close> answers true, the custom element carries
  \<open>aria-disabled\<close> and the native input \<open>disabled\<close>, yet the tabindex is \<open>0\<close>, not
  \<open>-1\<close>, and a click still takes the checkbox's value out of the group.
\<close>

theorem checkboxProps_group_disabled_tabindex:
  "useCheckbox_isDisabled group_disabled_checkbox = JBool True
   \<and> checkboxProps capture_ref group_disabled_checkbox ''aria-disabled'' = Some (JBool True)
   \<and> createBindings True group_disabled_checkbox ''disabled'' = Some (JBool True)
   \<and> checkboxProps capture_ref group_disabled_checkbox ''tabindex'' = Some (JStr ''0'')
   \<and> checkboxProps capture_ref group_disabled_checkbox ''tabindex'' \<noteq> Some (JStr ''-1'')
   \<and> fieldValue_get group_disabled_checkbox = Inr (Some [JBool True])
   \<and> fieldValue_get (useCheckbox_onClick group_disabled_checkbox) = Inr (Some [])"
proof -
  have dis: "useCheckbox_isDisabled group_disabled_checkbox = JBool True"
    by (simp add: useCheckbox_isDisabled_def group_disabled_checkbox_def plain_checkbox_def
        no_props_def disabled_group_def context_disabled_def nullish_or_def)
  have aria: "checkboxProps capture_ref group_disabled_checkbox ''aria-disabled'' = Some (JBool True)"
    by (simp add: checkboxProps_def capture_ref_def map_add_def createBindings_aria_disabled dis
        js_or_def)
  have native: "createBindings True group_disabled_checkbox ''disabled'' = Some (JBool True)"
    by (simp add: createBindings_input_disabled dis js_or_def)
  have tab: "checkboxProps capture_ref group_disabled_checkbox ''tabindex'' = Some (JStr ''0'')"
    by (simp add: checkboxProps_def capture_ref_def map_add_def createBindings_tabindex
        group_disabled_checkbox_def plain_checkbox_def no_props_def)
  have before: "fieldValue_get group_disabled_checkbox = Inr (Some [JBool True])"
    by (simp add: fieldValue_get_def group_disabled_checkbox_def plain_checkbox_def
        disabled_group_def)
  have click: "fieldValue_get (useCheckbox_onClick group_disabled_checkbox) = Inr (Some [])"
    by (simp add: fieldValue_get_def useCheckbox_onClick_def useCheckbox_toggleValue_def
        useCheckbox_checked_def fieldValue_set_def getTrueValue_def getFalseValue_def
        nullish_or_def hasValue_def valueOrEmpty_def toggleValue_def toggleValueSelection_def
        isEqual_def group_disabled_checkbox_def plain_checkbox_def no_props_def
        disabled_group_def Let_def)
  from dis aria native tab before click show ?thesis by simp
qed

section \<open>Radio group: the ARIA bindings\<close>

text \<open>
  C5. Whatever \<open>describedBy\<close> computes, the bindings of a radio group carry
  \<open>aria-invalid\<close> equal to true when the group's error message is truthy and undefined
  otherwise: for a message that is a string, true exactly when the string is not empty,
  and undefined when there is no message. They carry as \<open>aria-describedby\<close> what
  \<open>describedBy\<close> derives from the group's id, the error message and the description.
\<close>

theorem radioGroupProps_aria:
  "radioGroupProps describedBy g ''aria-invalid'' =
     Some (if truthy (errorMessage g) then JBool True else JUndefined)
   \<and> radioGroupProps describedBy (g\<lparr>errorMessage := JStr msg\<rparr>) ''aria-invalid'' =
     Some (if msg \<noteq> [] then JBool True else JUndefined)
   \<and> radioGroupProps describedBy (g\<lparr>errorMessage := JUndefined\<rparr>) ''aria-invalid'' =
     Some JUndefined
   \<and> radioGroupProps describedBy g ''aria-describedby'' =
     Some (describedBy (radio_groupId g) (errorMessage g) (radio_description g))"
  by (simp add: radioGroupProps_def map_add_def)

section \<open>Form: dirty, valid, touched\<close>

text \<open>
  C4. A form is dirty exactly when its current values differ, by deep equality, from
  the originals of the values snapshot that it was created with.
\<close>

theorem isDirty_iff: "isDirty f \<longleftrightarrow> form_values f \<noteq> originals (valuesSnapshot f)"
  by (simp add: isDirty_def isEqual_def)

text \<open>
  C6. A form is valid exactly when the form context holds no errors: no path of the
  errors record has a message.
\<close>

theorem isValid_iff:
  "isValid f \<longleftrightarrow> (\<forall>(path, messages) \<in> set (errors f). messages = [])"
  by (auto simp: isValid_def hasErrors_def list_ex_iff)

theorem isValid_iff_witness: "isValid form_clean \<and> \<not> isValid form_with_error"
  using isValid_iff [of form_clean] isValid_iff [of form_with_error]
  by (simp add: form_clean_def form_with_error_def)

lemma findLeaf_leaves:
  "(findLeaf P t \<noteq> None) = (\<exists>a \<in> set (leaves t). P a)"
  "(findLeaf_entries P es \<noteq> None) = (\<exists>a \<in> set (leaves_of_entries es). P a)"
  by (induction P t and P es rule: findLeaf_findLeaf_entries.induct)
     (auto split: option.splits)

text \<open>
  C7. A form is touched exactly when at least one leaf of its touched tree is the value
  \<open>true\<close>.
\<close>

theorem isTouched_iff: "isTouched f \<longleftrightarrow> JBool True \<in> set (leaves (touched f))"
proof -
  have "isTouched f \<longleftrightarrow> (\<exists>l \<in> set (leaves (touched f)). strict_eq l (JBool True))"
    unfolding isTouched_def by (rule findLeaf_leaves(1))
  also have "\<dots> \<longleftrightarrow> JBool True \<in> set (leaves (touched f))"
    by (auto simp: strict_eq_def)
  finally show ?thesis .
qed

end
